theory Spec2Isabelle
  imports Complex_Main "HOL-Library.AList"
begin

section \<open>Data model of \<^verbatim>\<open>src/src/scanner.py\<close>\<close>

text \<open>
  Python ints are modelled as \<^typ>\<open>int\<close>, Python floats as the binary64 values of the
  section on arithmetic below. A timestamp is a calendar day (an ordinal) together with the seconds
  elapsed in that day; \<^verbatim>\<open>.date()\<close> is the first component.
\<close>

type_synonym date = int
type_synonym datetime = "date \<times> nat"

definition date_of :: "datetime \<Rightarrow> date" where
  "date_of t = fst t"

datatype Exchange = NASDAQ | NYSE | BOTH

record ScannerSettings =
  exchange :: Exchange
  min_price :: real
  max_price :: real
  min_market_cap :: real
  max_market_cap :: real
  min_volume :: int
  timeframe_minutes :: int
  detect_ha_candle :: bool
  detect_normal_candle :: bool

text \<open>
  One row of the OHLCV frame built by \<^verbatim>\<open>_get_historical_bars\<close>. The columns
  \<^verbatim>\<open>datetime, open, high, low, close, volume\<close> carry the prefix \<open>bar_\<close>
  (\<open>open\<close> and \<open>last\<close> are constants of the library).
\<close>

record bar =
  bar_datetime :: datetime
  bar_open :: real
  bar_high :: real
  bar_low :: real
  bar_close :: real
  bar_volume :: int

text \<open>A row of the frame after \<^verbatim>\<open>calculate\<close> has added the four HA columns.\<close>

record ha_bar = bar +
  ha_open :: real
  ha_high :: real
  ha_low :: real
  ha_close :: real

text \<open>
  A pandas frame as this module uses it: either the plain OHLCV columns, or the OHLCV
  columns plus the four HA columns.
\<close>

datatype frame = OHLCV "bar list" | HA "ha_bar list"

fun frame_len :: "frame \<Rightarrow> nat" where
  "frame_len (OHLCV rows) = length rows"
| "frame_len (HA rows) = length rows"

fun ha_rows :: "frame \<Rightarrow> ha_bar list" where
  "ha_rows (OHLCV rows) = []"
| "ha_rows (HA rows) = rows"

datatype py_error = IndexError

section \<open>Binary64 arithmetic\<close>

text \<open>
  A finite Python float is the real number it denotes. An arithmetic operation computes
  the exact result and rounds it to the nearest binary64 value, ties to even: 53
  significant bits in the normal range, multiples of \<^verbatim>\<open>2**-1074\<close> below it. Overflow to
  infinity is not modelled (magnitudes stay below \<^verbatim>\<open>2**1024\<close>), and \<^verbatim>\<open>-0.0\<close> is
  identified with \<^verbatim>\<open>0.0\<close>, as \<^verbatim>\<open>==\<close> does.
\<close>

text \<open>\<open>ilog2 n\<close> is the position of the leading bit of \<open>n\<close>.\<close>

fun ilog2 :: "nat \<Rightarrow> nat" where
  "ilog2 n = (if n < 2 then 0 else Suc (ilog2 (n div 2)))"

declare ilog2.simps [simp del]

definition pow2 :: "int \<Rightarrow> real" where
  "pow2 k = (if 0 \<le> k then 2 ^ nat k else 1 / 2 ^ nat (- k))"

text \<open>The exponent \<open>e\<close> with \<open>pow2 e \<le> \<bar>x\<bar> < pow2 (e + 1)\<close>, for \<open>x \<noteq> 0\<close>.\<close>

definition binade :: "real \<Rightarrow> int" where
  "binade x =
     (let a = \<bar>x\<bar> in
      if 1 \<le> a then int (ilog2 (nat \<lfloor>a\<rfloor>))
      else - (int (ilog2 (nat (\<lceil>1 / a\<rceil> - 1))) + 1))"

definition round_half_even :: "real \<Rightarrow> int" where
  "round_half_even y =
     (let f = \<lfloor>y\<rfloor>; d = y - of_int f in
      if d < 1 / 2 then f
      else if 1 / 2 < d then f + 1
      else if even f then f else f + 1)"

text \<open>Rounding to the nearest multiple of the unit in the last place of \<open>x\<close>.\<close>

definition round64 :: "real \<Rightarrow> real" where
  "round64 x =
     (if x = 0 then 0
      else let k = max (binade x) (- 1022) - 52
           in of_int (round_half_even (x / pow2 k)) * pow2 k)"

definition fl_add :: "real \<Rightarrow> real \<Rightarrow> real" where
  "fl_add x y = round64 (x + y)"

definition fl_sub :: "real \<Rightarrow> real \<Rightarrow> real" where
  "fl_sub x y = round64 (x - y)"

definition fl_mul :: "real \<Rightarrow> real \<Rightarrow> real" where
  "fl_mul x y = round64 (x * y)"

text \<open>The source divides by the constants 2 and 4 and by a close it has found positive.\<close>

definition fl_div :: "real \<Rightarrow> real \<Rightarrow> real" where
  "fl_div x y = round64 (x / y)"

text \<open>
  A field of a quote can also be \<^verbatim>\<open>nan\<close>, which is what the ticker holds before a
  value has arrived. \<^verbatim>\<open>nan\<close> is truthy and every operation on it gives \<^verbatim>\<open>nan\<close>.
\<close>

datatype pyfloat = Fin real | NaN

fun truthy :: "pyfloat \<Rightarrow> bool" where
  "truthy (Fin x) = (x \<noteq> 0)"
| "truthy NaN = True"

fun pf_sub :: "pyfloat \<Rightarrow> pyfloat \<Rightarrow> pyfloat" where
  "pf_sub (Fin x) (Fin y) = Fin (fl_sub x y)"
| "pf_sub _ _ = NaN"

fun pf_mul :: "pyfloat \<Rightarrow> pyfloat \<Rightarrow> pyfloat" where
  "pf_mul (Fin x) (Fin y) = Fin (fl_mul x y)"
| "pf_mul _ _ = NaN"

fun pf_div :: "pyfloat \<Rightarrow> pyfloat \<Rightarrow> pyfloat" where
  "pf_div (Fin x) (Fin y) = Fin (fl_div x y)"
| "pf_div _ _ = NaN"

section \<open>HeikinAshiCalculator\<close>

text \<open>\<^verbatim>\<open>(df['open'] + df['high'] + df['low'] + df['close']) / 4\<close>, row by row: three
  additions from left to right, then the division.\<close>

definition ha_close_col :: "bar list \<Rightarrow> real list" where
  "ha_close_col df =
     map (\<lambda>b. fl_div (fl_add (fl_add (fl_add (bar_open b) (bar_high b)) (bar_low b))
                       (bar_close b)) 4) df"

text \<open>
  The loop \<^verbatim>\<open>for i in range(1, len(df))\<close>: the list \<open>acc\<close> is the Python list
  \<^verbatim>\<open>ha_open\<close>, extended by one element for each index of the range.
\<close>

fun ha_open_loop :: "real list \<Rightarrow> real list \<Rightarrow> nat list \<Rightarrow> real list" where
  "ha_open_loop hc acc [] = acc"
| "ha_open_loop hc acc (i # rest) =
     ha_open_loop hc (acc @ [fl_div (fl_add (acc ! (i - 1)) (hc ! (i - 1))) 2]) rest"

definition ha_open_col :: "bar list \<Rightarrow> real list" where
  "ha_open_col df = ha_open_loop (ha_close_col df) [bar_open (df ! 0)] [1..<length df]"

text \<open>One output row: the raw columns, the two computed columns, and the row-wise
  \<^verbatim>\<open>max(axis=1)\<close> and \<^verbatim>\<open>min(axis=1)\<close> over three columns.\<close>

definition ha_row :: "bar \<Rightarrow> real \<Rightarrow> real \<Rightarrow> ha_bar" where
  "ha_row b ho hc =
     bar.extend b \<lparr>ha_open = ho,
                   ha_high = max (max (bar_high b) ho) hc,
                   ha_low = min (min (bar_low b) ho) hc,
                   ha_close = hc\<rparr>"

definition calculate :: "bar list \<Rightarrow> frame" where
  "calculate df =
     (if df = [] then OHLCV df
      else HA (map (\<lambda>(b, ho, hc). ha_row b ho hc)
                   (zip df (zip (ha_open_col df) (ha_close_col df)))))"

text \<open>
  \<^verbatim>\<open>series.iloc[index]\<close>: positions \<open>0 .. n-1\<close>, and \<open>-n .. -1\<close> counted from the
  end; anything else raises \<^verbatim>\<open>IndexError\<close>.
\<close>

definition iloc :: "'a list \<Rightarrow> int \<Rightarrow> py_error + 'a" where
  "iloc xs i =
     (let n = int (length xs) in
      if 0 \<le> i \<and> i < n then Inr (xs ! nat i)
      else if - n \<le> i \<and> i < 0 then Inr (xs ! nat (n + i))
      else Inl IndexError)"

text \<open>
  \<^verbatim>\<open>is_bullish\<close>: a frame that is empty or has no \<^verbatim>\<open>ha_close\<close> column gives
  \<open>False\<close>; otherwise the two columns are read at \<open>index\<close>.
\<close>

fun is_bullish :: "frame \<Rightarrow> int \<Rightarrow> py_error + bool" where
  "is_bullish (OHLCV rows) index = Inr False"
| "is_bullish (HA rows) index =
     (if rows = [] then Inr False
      else case iloc (map ha_close rows) index of
             Inl e \<Rightarrow> Inl e
           | Inr hc \<Rightarrow> (case iloc (map ha_open rows) index of
                          Inl e \<Rightarrow> Inl e
                        | Inr ho \<Rightarrow> Inr (hc > ho)))"

section \<open>IBKRScanner\<close>

text \<open>
  Formatted strings are modelled by the values they interpolate:
  \<^verbatim>\<open>parameters_used\<close> by the timeframe, the minimum volume and the two price bounds,
  the history's \<^verbatim>\<open>parameters\<close> by the timeframe, and a log message by a constructor
  carrying its arguments (the text of a caught exception is dropped).
\<close>

record ScanResult =
  symbol :: string
  last_price :: pyfloat
  change_percent :: pyfloat
  bid :: pyfloat
  ask :: pyfloat
  market_cap :: pyfloat
  volume :: pyfloat
  ha_bullish :: bool
  normal_bullish :: bool
  first_candle_volume :: int
  scan_time :: datetime
  parameters_used :: "int \<times> int \<times> real \<times> real"

text \<open>A Python \<^verbatim>\<open>dict\<close> keyed by symbol, in insertion order: assigning to a key that is
  present replaces its value in place, a new key goes to the end (\<^const>\<open>AList.update\<close>).\<close>

type_synonym result_dict = "(string \<times> ScanResult) list"

text \<open>One entry of \<^verbatim>\<open>scan_history\<close>.\<close>

record ScanRun =
  run_timestamp :: datetime
  run_parameters :: int
  run_results :: result_dict

datatype log_entry =
    Error_not_connected
  | Info_starting_scan
  | Info_fetched_stocks nat
  | Error_fetching_universe
  | Error_historical_data string
  | Error_market_data string
  | Debug_fundamental_data string
  | Error_scanning string
  | Info_found_signal string bool bool
  | Info_scan_complete nat

text \<open>
  The scanner object, as far as \<^verbatim>\<open>run_scan\<close> reads and writes it. \<open>is_connected\<close>
  is the attribute \<^verbatim>\<open>connected\<close>; \<open>callback\<close> tells whether \<^verbatim>\<open>_callback\<close> is set and
  \<open>notified\<close> lists the arguments of the calls made to it; \<open>logged\<close> is what the module's
  logger has received.
\<close>

record scanner =
  is_connected :: bool
  settings :: ScannerSettings
  results :: result_dict
  scan_history :: "ScanRun list"
  callback :: bool
  notified :: "result_dict list"
  logged :: "log_entry list"

text \<open>
  The upstream service during one scan. A contract is identified by its symbol. Each
  request answers with a value, or \<open>None\<close> when the call raises; \<open>now\<close> is the reading
  of the Eastern-time clock.
\<close>

type_synonym Contract = string

record ticker =
  t_last :: pyfloat
  t_close :: pyfloat
  t_bid :: pyfloat
  t_ask :: pyfloat
  t_volume :: pyfloat

record upstream =
  req_scanner_data :: "Contract list option"
  req_historical_data :: "Contract \<Rightarrow> bar list option"
  req_mkt_data :: "Contract \<Rightarrow> ticker option"
  req_fundamental_data :: "Contract \<Rightarrow> string option"
  now :: datetime

text \<open>\<^verbatim>\<open>d.get(key, default)\<close>\<close>

definition dict_get :: "('k \<rightharpoonup> 'v) \<Rightarrow> 'k \<Rightarrow> 'v \<Rightarrow> 'v" where
  "dict_get d k dflt = (case d k of None \<Rightarrow> dflt | Some v \<Rightarrow> v)"

definition fetch_stock_universe :: "bool \<Rightarrow> upstream \<Rightarrow> Contract list \<times> log_entry list" where
  "fetch_stock_universe conn up =
     (if \<not> conn then ([], [])
      else case req_scanner_data up of
             Some contracts \<Rightarrow> (contracts, [Info_fetched_stocks (length contracts)])
           | None \<Rightarrow> ([], [Error_fetching_universe]))"

text \<open>The empty list is the empty \<^verbatim>\<open>pd.DataFrame()\<close>.\<close>

definition get_historical_bars :: "bool \<Rightarrow> upstream \<Rightarrow> Contract \<Rightarrow> bar list \<times> log_entry list" where
  "get_historical_bars conn up contract =
     (if \<not> conn then ([], [])
      else case req_historical_data up contract of
             Some bars \<Rightarrow> (if bars \<noteq> [] then (bars, []) else ([], []))
           | None \<Rightarrow> ([], [Error_historical_data contract]))"

text \<open>\<^verbatim>\<open>x if x else y\<close>: a float is falsy exactly when it is zero.\<close>

definition get_market_data ::
  "bool \<Rightarrow> upstream \<Rightarrow> Contract \<Rightarrow> (string \<rightharpoonup> pyfloat) \<times> log_entry list" where
  "get_market_data conn up contract =
     (if \<not> conn then (Map.empty, [])
      else case req_mkt_data up contract of
             Some t \<Rightarrow>
               ([''last_price'' \<mapsto> (if truthy (t_last t) then t_last t else t_close t),
                 ''bid'' \<mapsto> (if truthy (t_bid t) then t_bid t else Fin 0),
                 ''ask'' \<mapsto> (if truthy (t_ask t) then t_ask t else Fin 0),
                 ''volume'' \<mapsto> (if truthy (t_volume t) then t_volume t else Fin 0)], [])
           | None \<Rightarrow> (Map.empty, [Error_market_data contract]))"

definition get_fundamental_data ::
  "bool \<Rightarrow> upstream \<Rightarrow> Contract \<Rightarrow> (string \<rightharpoonup> pyfloat) \<times> log_entry list" where
  "get_fundamental_data conn up contract =
     (if \<not> conn then (Map.empty, [])
      else case req_fundamental_data up contract of
             Some fundamental \<Rightarrow> ([''market_cap'' \<mapsto> Fin 0], [])
           | None \<Rightarrow> ([''market_cap'' \<mapsto> Fin 0], [Debug_fundamental_data contract]))"

text \<open>\<^verbatim>\<open>df[df['datetime'].dt.date == now.date()]\<close>: the rows dated on the day of the
  clock reading \<open>t\<close>.\<close>

definition session_bars :: "datetime \<Rightarrow> bar list \<Rightarrow> bar list" where
  "session_bars t df = filter (\<lambda>b. date_of (bar_datetime b) = date_of t) df"

text \<open>\<^verbatim>\<open>_analyze_first_candle\<close>; \<open>t\<close> is the clock reading \<^verbatim>\<open>now\<close>.\<close>

definition analyze_first_candle ::
  "ScannerSettings \<Rightarrow> datetime \<Rightarrow> bar list \<Rightarrow> py_error + (bool \<times> bool \<times> int)" where
  "analyze_first_candle st t df =
     (if df = [] then Inr (False, False, 0)
      else
        let today_df = session_bars t df in
        if today_df = [] then Inr (False, False, 0)
        else
          let first_candle = hd today_df;
              first_volume = bar_volume first_candle;
              normal_bull = (bar_close first_candle > bar_open first_candle)
          in if detect_ha_candle st
             then (case is_bullish (calculate today_df) 0 of
                     Inl e \<Rightarrow> Inl e
                   | Inr ha_bull \<Rightarrow> Inr (ha_bull, normal_bull, first_volume))
             else Inr (False, normal_bull, first_volume))"

text \<open>
  The two nested conditionals of \<^verbatim>\<open>_scan_stock\<close> under the comment
  \<^verbatim>\<open># Check if any condition is met\<close>. Each block tells whether it returns \<open>None\<close>;
  \<open>signal_check\<close> holds when neither does and the function goes on.
\<close>

definition ha_block_returns :: "ScannerSettings \<Rightarrow> bool \<Rightarrow> bool \<Rightarrow> bool" where
  "ha_block_returns st ha_bull normal_bull =
     (if detect_ha_candle st \<and> \<not> ha_bull then
        (if detect_normal_candle st \<and> \<not> normal_bull then True
         else if \<not> detect_normal_candle st then True
         else False)
      else False)"

definition normal_block_returns :: "ScannerSettings \<Rightarrow> bool \<Rightarrow> bool \<Rightarrow> bool" where
  "normal_block_returns st ha_bull normal_bull =
     (if detect_normal_candle st \<and> \<not> normal_bull then
        (if detect_ha_candle st \<and> \<not> ha_bull then True
         else if \<not> detect_ha_candle st then True
         else False)
      else False)"

definition signal_check :: "ScannerSettings \<Rightarrow> bool \<Rightarrow> bool \<Rightarrow> bool" where
  "signal_check st ha_bull normal_bull =
     (if ha_block_returns st ha_bull normal_bull then False
      else if normal_block_returns st ha_bull normal_bull then False
      else True)"

text \<open>
  The block under \<^verbatim>\<open># Calculate change percent\<close>: the pair
  \<open>(change_percent, last_price)\<close>.
\<close>

definition price_change ::
  "bar list \<Rightarrow> (string \<rightharpoonup> pyfloat) \<Rightarrow> py_error + (pyfloat \<times> pyfloat)" where
  "price_change df mkt_data =
     (if df \<noteq> [] then
        (case (if length df > 1 then iloc (map bar_close df) (- 2)
               else iloc (map bar_close df) (- 1)) of
           Inl e \<Rightarrow> Inl e
         | Inr prev_close \<Rightarrow>
             (case iloc (map bar_close df) (- 1) of
                Inl e \<Rightarrow> Inl e
              | Inr last_bar_close \<Rightarrow>
                  let last_px = dict_get mkt_data ''last_price'' (Fin last_bar_close)
                  in Inr (if prev_close > 0
                          then pf_mul (pf_div (pf_sub last_px (Fin prev_close))
                                         (Fin prev_close)) (Fin 100)
                          else Fin 0,
                          last_px)))
      else Inr (Fin 0, Fin 0))"

text \<open>
  \<^verbatim>\<open>_scan_stock\<close>. An exception inside the \<^verbatim>\<open>try\<close> block is caught, logged, and
  turned into \<open>None\<close>.
\<close>

definition scan_stock ::
  "bool \<Rightarrow> ScannerSettings \<Rightarrow> upstream \<Rightarrow> Contract \<Rightarrow> ScanResult option \<times> log_entry list" where
  "scan_stock conn st up contract =
     (let (df, l1) = get_historical_bars conn up contract in
      if df = [] then (None, l1)
      else case analyze_first_candle st (now up) df of
        Inl e \<Rightarrow> (None, l1 @ [Error_scanning contract])
      | Inr (ha_bull, normal_bull, first_volume) \<Rightarrow>
          if first_volume < min_volume st then (None, l1)
          else if \<not> signal_check st ha_bull normal_bull then (None, l1)
          else
            let (mkt_data, l2) = get_market_data conn up contract;
                (fund_data, l3) = get_fundamental_data conn up contract
            in case price_change df mkt_data of
                 Inl e \<Rightarrow> (None, l1 @ l2 @ l3 @ [Error_scanning contract])
               | Inr (change, last_px) \<Rightarrow>
                   (Some \<lparr>symbol = contract,
                          last_price = dict_get mkt_data ''last_price'' last_px,
                          change_percent = change,
                          bid = dict_get mkt_data ''bid'' (Fin 0),
                          ask = dict_get mkt_data ''ask'' (Fin 0),
                          market_cap = dict_get fund_data ''market_cap'' (Fin 0),
                          volume = dict_get mkt_data ''volume'' (Fin 0),
                          ha_bullish = ha_bull,
                          normal_bullish = normal_bull,
                          first_candle_volume = first_volume,
                          scan_time = now up,
                          parameters_used =
                            (timeframe_minutes st, min_volume st, min_price st, max_price st)\<rparr>,
                    l1 @ l2 @ l3))"

text \<open>The loop \<^verbatim>\<open>for contract in contracts\<close> of \<^verbatim>\<open>run_scan\<close>, on the dictionary
  \<^verbatim>\<open>new_results\<close> and the log.\<close>

fun scan_loop ::
  "bool \<Rightarrow> ScannerSettings \<Rightarrow> upstream \<Rightarrow> Contract list \<Rightarrow> result_dict \<times> log_entry list
     \<Rightarrow> result_dict \<times> log_entry list" where
  "scan_loop conn st up [] (new_results, lg) = (new_results, lg)"
| "scan_loop conn st up (contract # rest) (new_results, lg) =
     (case scan_stock conn st up contract of
        (None, l) \<Rightarrow> scan_loop conn st up rest (new_results, lg @ l)
      | (Some result, l) \<Rightarrow>
          scan_loop conn st up rest
            (AList.update (symbol result) result new_results,
             lg @ l @ [Info_found_signal (symbol result) (ha_bullish result)
                         (normal_bullish result)]))"

text \<open>The entry \<^verbatim>\<open>run_scan\<close> appends to the history when the live set is not empty.\<close>

definition archive :: "upstream \<Rightarrow> scanner \<Rightarrow> ScanRun list" where
  "archive up s =
     (if results s \<noteq> []
      then [\<lparr>run_timestamp = now up,
             run_parameters = timeframe_minutes (settings s),
             run_results = results s\<rparr>]
      else [])"

definition run_scan :: "upstream \<Rightarrow> scanner \<Rightarrow> result_dict \<times> scanner" where
  "run_scan up s =
     (if \<not> is_connected s
      then ([], s\<lparr>logged := logged s @ [Error_not_connected]\<rparr>)
      else
        let s1 = s\<lparr>logged := logged s @ [Info_starting_scan]\<rparr>;
            s2 = s1\<lparr>scan_history := scan_history s1 @ archive up s1\<rparr>;
            (contracts, l) = fetch_stock_universe (is_connected s2) up;
            (new_results, l') = scan_loop (is_connected s2) (settings s2) up contracts ([], []);
            s3 = s2\<lparr>results := new_results, logged := logged s2 @ l @ l'\<rparr>;
            s4 = (if callback s3 then s3\<lparr>notified := notified s3 @ [results s3]\<rparr> else s3);
            s5 = s4\<lparr>logged := logged s4 @ [Info_scan_complete (length (results s4))]\<rparr>
        in (results s5, s5))"

section \<open>The claims' own words\<close>

text \<open>
  The specification's reduced rule, written from its sentence
  \<^verbatim>\<open>qualifies = (not detect_smoothed OR smoothed_bullish) AND (not detect_normal OR
  normal_bullish) AND (detect_smoothed OR detect_normal)\<close>, to be compared with
  \<^const>\<open>signal_check\<close>, which is the source's nested conditional.
\<close>

definition spec_qualifies :: "ScannerSettings \<Rightarrow> bool \<Rightarrow> bool \<Rightarrow> bool" where
  "spec_qualifies st smoothed_bull normal_bull =
     ((\<not> detect_ha_candle st \<or> smoothed_bull)
      \<and> (\<not> detect_normal_candle st \<or> normal_bull)
      \<and> (detect_ha_candle st \<or> detect_normal_candle st))"

text \<open>The arithmetic mean of the four raw fields of a bar, without rounding.\<close>

definition exact_mean :: "bar \<Rightarrow> real" where
  "exact_mean b = (bar_open b + bar_high b + bar_low b + bar_close b) / 4"

section \<open>Concrete inputs\<close>

text \<open>The defaults of the dataclass \<^verbatim>\<open>ScannerSettings\<close>.\<close>

definition default_settings :: ScannerSettings where
  "default_settings =
     \<lparr>exchange = BOTH, min_price = 0, max_price = 100, min_market_cap = 0,
      max_market_cap = 100, min_volume = 100000, timeframe_minutes = 2,
      detect_ha_candle = True, detect_normal_candle = True\<rparr>"

text \<open>Two two-minute bars of day 1, starting at 09:30.\<close>

definition example_bars :: "bar list" where
  "example_bars =
     [\<lparr>bar_datetime = (1, 34200), bar_open = 10, bar_high = 12, bar_low = 9,
       bar_close = 11, bar_volume = 500000\<rparr>,
      \<lparr>bar_datetime = (1, 34320), bar_open = 11, bar_high = 13, bar_low = 10,
       bar_close = 12, bar_volume = 300000\<rparr>]"

text \<open>
  One bar with the prices 51.65, 52.24, 51.16 and 51.55 as Python reads them: each is the
  binary64 value nearest to the decimal.
\<close>

definition rounding_bars :: "bar list" where
  "rounding_bars =
     [\<lparr>bar_datetime = (1, 34200), bar_open = round64 (5165 / 100),
       bar_high = round64 (5224 / 100), bar_low = round64 (5116 / 100),
       bar_close = round64 (5155 / 100), bar_volume = 500000\<rparr>]"

text \<open>
  A quote whose last price is the float 7.6, a two-bar session of day 1 with closes 10
  and 8, and an upstream that answers every request with them; the same upstream read on
  the next day; an upstream whose bars are \<^const>\<open>rounding_bars\<close>; settings that differ
  from the defaults; and a connected scanner whose live set holds one earlier result.
\<close>

definition example_ticker :: ticker where
  "example_ticker =
     \<lparr>t_last = Fin (round64 (38 / 5)), t_close = Fin 8, t_bid = Fin (15 / 2),
      t_ask = Fin (31 / 4), t_volume = Fin 1200000\<rparr>"

definition scenario_bars :: "bar list" where
  "scenario_bars =
     [\<lparr>bar_datetime = (1, 34200), bar_open = 9, bar_high = 21 / 2, bar_low = 17 / 2,
       bar_close = 10, bar_volume = 100000\<rparr>,
      \<lparr>bar_datetime = (1, 34320), bar_open = 9, bar_high = 19 / 2, bar_low = 15 / 2,
       bar_close = 8, bar_volume = 400000\<rparr>]"

definition example_upstream :: upstream where
  "example_upstream =
     \<lparr>req_scanner_data = Some [''AAA''],
      req_historical_data = (\<lambda>c. Some scenario_bars),
      req_mkt_data = (\<lambda>c. Some example_ticker),
      req_fundamental_data = (\<lambda>c. Some ''xml''),
      now = (1, 36000)\<rparr>"

definition next_day_upstream :: upstream where
  "next_day_upstream = example_upstream\<lparr>now := (2, 36000)\<rparr>"

definition rounding_upstream :: upstream where
  "rounding_upstream = example_upstream\<lparr>req_historical_data := (\<lambda>c. Some rounding_bars)\<rparr>"

definition permissive_settings :: ScannerSettings where
  "permissive_settings =
     default_settings\<lparr>min_volume := 0, detect_ha_candle := False,
                       detect_normal_candle := False\<rparr>"

definition strict_settings :: ScannerSettings where
  "strict_settings = default_settings\<lparr>min_volume := 100001\<rparr>"

definition old_result :: ScanResult where
  "old_result =
     \<lparr>symbol = ''OLD'', last_price = Fin 5, change_percent = Fin 1, bid = Fin 5,
      ask = Fin 5, market_cap = Fin 0, volume = Fin 1000, ha_bullish = True,
      normal_bullish = True, first_candle_volume = 200000, scan_time = (0, 36000),
      parameters_used = (2, 100000, 0, 100)\<rparr>"

definition example_scanner :: scanner where
  "example_scanner =
     \<lparr>is_connected = True, settings = default_settings, results = [(''OLD'', old_result)],
      scan_history = [], callback = True, notified = [], logged = []\<rparr>"

section \<open>Comparing two scans\<close>

text \<open>A result mapping with every \<^verbatim>\<open>scan_time\<close> set to \<open>t\<close>; two mappings are equal up
  to \<^verbatim>\<open>scan_time\<close> when they agree after all stamps are set to one fixed value.\<close>

definition restamp :: "datetime \<Rightarrow> result_dict \<Rightarrow> result_dict" where
  "restamp t d = map (\<lambda>(k, r). (k, r\<lparr>scan_time := t\<rparr>)) d"

definition modulo_scan_time :: "result_dict \<Rightarrow> result_dict" where
  "modulo_scan_time d = restamp (0, 0) d"

text \<open>What the loop of \<^verbatim>\<open>run_scan\<close> collects on a connected scanner.\<close>

definition scan_all :: "ScannerSettings \<Rightarrow> upstream \<Rightarrow> result_dict" where
  "scan_all st up =
     fst (scan_loop True st up (fst (fetch_stock_universe True up)) ([], []))"

section \<open>Properties of the rounding\<close>

text \<open>The exponent is the binade of its argument, and \<^const>\<open>round64\<close> moves a number
  by at most half a unit in the last place.\<close>

lemma ilog2_bounds: "0 < n \<Longrightarrow> 2 ^ ilog2 n \<le> n \<and> n < 2 ^ Suc (ilog2 n)"
proof (induction n rule: ilog2.induct)
  case (1 n)
  show ?case
  proof (cases "n < 2")
    case True
    with "1.prems" have "n = 1" by simp
    then show ?thesis by (simp add: ilog2.simps)
  next
    case False
    then have "0 < n div 2" by simp
    with "1.IH" False have ih: "2 ^ ilog2 (n div 2) \<le> n div 2" "n div 2 < 2 ^ Suc (ilog2 (n div 2))"
      by simp_all
    have e: "ilog2 n = Suc (ilog2 (n div 2))" using False by (subst ilog2.simps) simp
    from ih show ?thesis unfolding e by simp linarith
  qed
qed

lemma ilog2_bounds_real:
  assumes "0 < n"
  shows "(2::real) ^ ilog2 n \<le> real n" and "real n + 1 \<le> 2 ^ Suc (ilog2 n)"
proof -
  from ilog2_bounds [OF assms] have "real (2 ^ ilog2 n) \<le> real n"
    by (simp only: of_nat_le_iff)
  then show "(2::real) ^ ilog2 n \<le> real n" by simp
  from ilog2_bounds [OF assms] have "n + 1 \<le> 2 ^ Suc (ilog2 n)" by simp
  then have "real (n + 1) \<le> real (2 ^ Suc (ilog2 n))" by (simp only: of_nat_le_iff)
  then show "real n + 1 \<le> 2 ^ Suc (ilog2 n)" by simp
qed

lemma pow2_nonneg: "pow2 (int k) = 2 ^ k"
  by (simp add: pow2_def)

lemma pow2_neg: "pow2 (- int k) = 1 / 2 ^ k"
  by (simp add: pow2_def)

lemma binade_bounds:
  assumes "x \<noteq> 0"
  shows "pow2 (binade x) \<le> \<bar>x\<bar> \<and> \<bar>x\<bar> < pow2 (binade x + 1)"
proof (cases "1 \<le> \<bar>x\<bar>")
  case True
  define n where "n = nat \<lfloor>\<bar>x\<bar>\<rfloor>"
  have n: "0 < n" using True by (simp add: n_def)
  have b: "binade x = int (ilog2 n)" using True by (simp add: binade_def n_def Let_def)
  have lo: "real n \<le> \<bar>x\<bar>" unfolding n_def using True by simp
  have hi: "\<bar>x\<bar> < real n + 1" unfolding n_def using True by simp
  note 1 = ilog2_bounds_real(1) [OF n] and 2 = ilog2_bounds_real(2) [OF n]
  have p: "pow2 (int (ilog2 n) + 1) = 2 ^ Suc (ilog2 n)"
    using pow2_nonneg [of "Suc (ilog2 n)"] by (simp add: add.commute)
  show ?thesis unfolding b p pow2_nonneg using 1 2 lo hi by linarith
next
  case False
  define a where "a = \<bar>x\<bar>"
  have a: "0 < a" "a < 1" using assms False by (simp_all add: a_def)
  define m where "m = nat (\<lceil>1 / a\<rceil> - 1)"
  have y: "1 < 1 / a" using a by simp
  then have c: "2 \<le> \<lceil>1 / a\<rceil>" by linarith
  then have m: "0 < m" by (simp add: m_def)
  have "0 \<le> \<lceil>1 / a\<rceil> - 1" using c by linarith
  then have mi: "int m = \<lceil>1 / a\<rceil> - 1" unfolding m_def by (rule nat_0_le)
  have lo: "real m < 1 / a"
  proof -
    have "real_of_int (\<lceil>1 / a\<rceil> - 1) < 1 / a" by linarith
    then show ?thesis using mi by (metis of_int_of_nat_eq)
  qed
  have hi: "1 / a \<le> real m + 1"
  proof -
    have "1 / a \<le> real_of_int \<lceil>1 / a\<rceil>" by linarith
    also have "\<dots> = real_of_int (int m) + 1" using mi by simp
    finally show ?thesis by simp
  qed
  have b: "binade x = - int (Suc (ilog2 m))"
    using False by (simp add: binade_def Let_def m_def a_def)
  have b1: "binade x + 1 = - int (ilog2 m)" using b by simp
  note 1 = ilog2_bounds_real(1) [OF m] and 2 = ilog2_bounds_real(2) [OF m]
  have u: "1 / a \<le> 2 ^ Suc (ilog2 m)" using hi 2 by linarith
  have l: "2 ^ ilog2 m < 1 / a" using lo 1 by linarith
  have A: "1 / 2 ^ Suc (ilog2 m) \<le> a"
  proof -
    have "1 \<le> a * 2 ^ Suc (ilog2 m)" using u a by (simp add: field_simps)
    then show ?thesis by (simp add: field_simps)
  qed
  have B: "a < 1 / 2 ^ ilog2 m"
  proof -
    have "a * 2 ^ ilog2 m < 1" using l a by (simp add: field_simps)
    then show ?thesis by (simp add: field_simps)
  qed
  show ?thesis unfolding b1 unfolding b pow2_neg using A B by (simp add: a_def)
qed


lemma pow2_pos: "0 < pow2 k"
  by (simp add: pow2_def)

lemma round_half_even_nearest: "\<bar>of_int (round_half_even y) - y\<bar> \<le> 1 / 2"
  unfolding round_half_even_def Let_def by (auto simp: abs_if) linarith+

lemma round64_nearest:
  "\<bar>round64 x - x\<bar> \<le> pow2 (max (binade x) (- 1022) - 52) / 2"
proof (cases "x = 0")
  case True
  then show ?thesis using pow2_pos [of "max (binade 0) (- 1022) - 52"] by (simp add: round64_def)
next
  case False
  define u where "u = pow2 (max (binade x) (- 1022) - 52)"
  have u: "0 < u" unfolding u_def by (rule pow2_pos)
  have "round64 x - x = (of_int (round_half_even (x / u)) - x / u) * u"
    using False u by (simp add: round64_def Let_def u_def [symmetric] field_simps)
  then have "\<bar>round64 x - x\<bar> = \<bar>of_int (round_half_even (x / u)) - x / u\<bar> * u"
    using u by (simp add: abs_mult)
  also have "\<dots> \<le> 1 / 2 * u"
    using round_half_even_nearest [of "x / u"] u by (intro mult_right_mono) simp_all
  finally show ?thesis by (simp add: u_def)
qed

section \<open>Evaluating the arithmetic\<close>

lemma ilog2_numeral:
  "ilog2 (numeral n) = (if numeral n < (2::nat) then 0 else Suc (ilog2 (numeral n div 2)))"
  by (rule ilog2.simps)

lemma ilog2_small: "ilog2 0 = 0" "ilog2 1 = 0" "ilog2 (Suc 0) = 0"
  by (simp_all add: ilog2.simps)

lemmas fl_eval =
  fl_add_def fl_sub_def fl_mul_def fl_div_def round64_def binade_def pow2_def
  round_half_even_def Let_def ilog2_numeral ilog2_small

section \<open>Properties of the Heikin-Ashi calculator\<close>

subsection \<open>The two computed columns\<close>

lemma length_ha_close_col: "length (ha_close_col df) = length df"
  by (simp add: ha_close_col_def)

lemma length_ha_open_loop: "length (ha_open_loop hc acc is) = length acc + length is"
  by (induction "is" arbitrary: acc) auto

lemma ha_open_loop_prefix: "i < length acc \<Longrightarrow> ha_open_loop hc acc is ! i = acc ! i"
  by (induction "is" arbitrary: acc) (auto simp: nth_append)

lemma ha_open_loop_step:
  "length acc = k \<Longrightarrow> 0 < k \<Longrightarrow> k \<le> j \<Longrightarrow> j < n \<Longrightarrow>
   ha_open_loop hc acc [k..<n] ! j =
     fl_div (fl_add (ha_open_loop hc acc [k..<n] ! (j - 1)) (hc ! (j - 1))) 2"
proof (induction "n - k" arbitrary: k acc)
  case 0
  then show ?case by simp
next
  case (Suc d)
  let ?x = "fl_div (fl_add (acc ! (k - 1)) (hc ! (k - 1))) 2"
  from Suc.prems have kn: "k < n" by simp
  then have unfold: "ha_open_loop hc acc [k..<n] = ha_open_loop hc (acc @ [?x]) [Suc k..<n]"
    by (simp add: upt_conv_Cons)
  show ?case
  proof (cases "j = k")
    case True
    have a: "ha_open_loop hc (acc @ [?x]) [Suc k..<n] ! k = ?x"
      using Suc.prems(1) by (simp add: ha_open_loop_prefix nth_append)
    have b: "ha_open_loop hc (acc @ [?x]) [Suc k..<n] ! (k - 1) = acc ! (k - 1)"
      using Suc.prems(1,2) by (simp add: ha_open_loop_prefix nth_append)
    show ?thesis unfolding unfold True a b ..
  next
    case False
    have d: "d = n - Suc k" using Suc.hyps(2) by simp
    have "ha_open_loop hc (acc @ [?x]) [Suc k..<n] ! j =
          fl_div (fl_add (ha_open_loop hc (acc @ [?x]) [Suc k..<n] ! (j - 1)) (hc ! (j - 1))) 2"
      using Suc.prems False by (intro Suc.hyps(1)[OF d]) auto
    then show ?thesis unfolding unfold .
  qed
qed

lemma length_ha_open_col: "df \<noteq> [] \<Longrightarrow> length (ha_open_col df) = length df"
  by (cases df) (auto simp add: ha_open_col_def length_ha_open_loop Suc_le_eq)

lemma ha_open_col_0: "df \<noteq> [] \<Longrightarrow> ha_open_col df ! 0 = bar_open (df ! 0)"
  by (simp add: ha_open_col_def ha_open_loop_prefix)

lemma ha_open_col_Suc:
  "Suc i < length df \<Longrightarrow>
   ha_open_col df ! Suc i = fl_div (fl_add (ha_open_col df ! i) (ha_close_col df ! i)) 2"
  using ha_open_loop_step[of "[bar_open (df ! 0)]" 1 "Suc i" "length df" "ha_close_col df"]
  by (simp add: ha_open_col_def)

lemma ha_close_col_nth:
  "i < length df \<Longrightarrow>
   ha_close_col df ! i =
     fl_div (fl_add (fl_add (fl_add (bar_open (df ! i)) (bar_high (df ! i))) (bar_low (df ! i)))
               (bar_close (df ! i))) 4"
  by (simp add: ha_close_col_def)

lemma calculate_rows:
  "df \<noteq> [] \<Longrightarrow> i < length df \<Longrightarrow>
   ha_rows (calculate df) ! i = ha_row (df ! i) (ha_open_col df ! i) (ha_close_col df ! i)"
  by (simp add: calculate_def length_ha_open_col length_ha_close_col)

lemma length_calculate: "frame_len (calculate df) = length df"
  by (simp add: calculate_def length_ha_open_col length_ha_close_col)

lemma ha_row_sel:
  "ha_open (ha_row b x y) = x" "ha_close (ha_row b x y) = y"
  "ha_high (ha_row b x y) = max (max (bar_high b) x) y"
  "ha_low (ha_row b x y) = min (min (bar_low b) x) y"
  "bar_open (ha_row b x y) = bar_open b"
  by (simp_all add: ha_row_def bar.extend_def)

subsection \<open>The transform\<close>

text \<open>
  Claim C2, as amended. For every bar sequence, \<^verbatim>\<open>calculate\<close> returns a frame of the same
  length, and the empty frame for the empty input. At every index the smoothed close is
  the mean of the raw open, high, low and close as binary64 arithmetic computes it: the
  sum taken from left to right and then divided by 4, every operation rounded to nearest.
  The smoothed open is the raw open at index 0 and afterwards the rounded half of the
  rounded sum of the previous smoothed open and close. The smoothed high is the maximum of
  the raw high, the smoothed open and the smoothed close, and the smoothed low the minimum
  of the raw low, the smoothed open and the smoothed close. The smoothed close can differ
  from the exact mean in the last place.
\<close>

theorem calculate_spec:
  "frame_len (calculate df) = length df
   \<and> length (ha_rows (calculate df)) = length df
   \<and> (df = [] \<longrightarrow> calculate df = OHLCV [])
   \<and> (i < length df \<longrightarrow>
        (let rows = ha_rows (calculate df); r = rows ! i; b = df ! i in
           ha_close r =
             fl_div (fl_add (fl_add (fl_add (bar_open b) (bar_high b)) (bar_low b))
                       (bar_close b)) 4
         \<and> ha_open r =
             (if i = 0 then bar_open (df ! 0)
              else fl_div (fl_add (ha_open (rows ! (i - 1))) (ha_close (rows ! (i - 1)))) 2)
         \<and> ha_high r = max (bar_high b) (max (ha_open r) (ha_close r))
         \<and> ha_low r = min (bar_low b) (min (ha_open r) (ha_close r))))"
proof (intro conjI impI)
  show "frame_len (calculate df) = length df" by (rule length_calculate)
  show "length (ha_rows (calculate df)) = length df"
    by (simp add: calculate_def length_ha_open_col length_ha_close_col)
  show "calculate df = OHLCV []" if "df = []" using that by (simp add: calculate_def)
  show "let rows = ha_rows (calculate df); r = rows ! i; b = df ! i in
           ha_close r =
             fl_div (fl_add (fl_add (fl_add (bar_open b) (bar_high b)) (bar_low b))
                       (bar_close b)) 4
         \<and> ha_open r =
             (if i = 0 then bar_open (df ! 0)
              else fl_div (fl_add (ha_open (rows ! (i - 1))) (ha_close (rows ! (i - 1)))) 2)
         \<and> ha_high r = max (bar_high b) (max (ha_open r) (ha_close r))
         \<and> ha_low r = min (bar_low b) (min (ha_open r) (ha_close r))" if i: "i < length df"
  proof -
    from i have ne: "df \<noteq> []" by auto
    have row: "ha_rows (calculate df) ! i = ha_row (df ! i) (ha_open_col df ! i) (ha_close_col df ! i)"
      using ne i by (rule calculate_rows)
    have opn: "ha_open_col df ! i =
      (if i = 0 then bar_open (df ! 0)
       else fl_div (fl_add (ha_open (ha_rows (calculate df) ! (i - 1)))
                      (ha_close (ha_rows (calculate df) ! (i - 1)))) 2)"
    proof (cases i)
      case 0
      then show ?thesis using ne by (simp add: ha_open_col_0)
    next
      case (Suc j)
      then have j: "j < length df" using i by simp
      have "ha_rows (calculate df) ! j = ha_row (df ! j) (ha_open_col df ! j) (ha_close_col df ! j)"
        using ne j by (rule calculate_rows)
      then show ?thesis using Suc i by (simp add: ha_open_col_Suc ha_row_sel)
    qed
    show ?thesis
      unfolding Let_def row ha_row_sel
      using opn i by (simp add: ha_close_col_nth max.assoc min.assoc)
  qed
qed

theorem calculate_spec_witness:
  "1 < length example_bars
   \<and> ha_close (ha_rows (calculate example_bars) ! 1) = 23 / 2
   \<and> ha_open (ha_rows (calculate example_bars) ! 1) = 41 / 4
   \<and> ha_high (ha_rows (calculate example_bars) ! 1) = 13
   \<and> ha_low (ha_rows (calculate example_bars) ! 1) = 10"
  using calculate_spec [of example_bars 1]
  by (simp add: example_bars_def calculate_def ha_open_col_def ha_close_col_def ha_row_def
      bar.extend_def fl_eval)

theorem calculate_spec_counterexample:
  "ha_close (ha_rows (calculate rounding_bars) ! 0) = exact_mean (rounding_bars ! 0) + 1 / 2 ^ 47
   \<and> ha_close (ha_rows (calculate rounding_bars) ! 0) \<noteq> exact_mean (rounding_bars ! 0)"
  by (simp add: rounding_bars_def exact_mean_def calculate_def ha_open_col_def ha_close_col_def
      ha_row_def bar.extend_def fl_eval)

text \<open>
  Claim C10. At every index of a non-empty input, the smoothed low is at most the smoothed
  open, the smoothed close and the raw low, and the smoothed high is at least the smoothed
  open, the smoothed close and the raw high.
\<close>

theorem ha_range_contains_body:
  "i < length df \<Longrightarrow>
   (let r = ha_rows (calculate df) ! i in
      ha_low r \<le> min (ha_open r) (min (ha_close r) (bar_low (df ! i)))
    \<and> max (ha_open r) (max (ha_close r) (bar_high (df ! i))) \<le> ha_high r)"
proof -
  assume i: "i < length df"
  then have ne: "df \<noteq> []" by auto
  show ?thesis
    unfolding Let_def calculate_rows [OF ne i] ha_row_sel by auto
qed

theorem ha_range_contains_body_witness:
  "0 < length example_bars
   \<and> ha_low (ha_rows (calculate example_bars) ! 0) \<le> 9
   \<and> 12 \<le> ha_high (ha_rows (calculate example_bars) ! 0)"
  using ha_range_contains_body [of 0 example_bars]
  by (simp add: example_bars_def Let_def)

subsection \<open>Reading a candle\<close>




section \<open>Properties of the signal evaluator\<close>

lemmas scan_defs =
  scan_stock_def get_historical_bars_def get_market_data_def get_fundamental_data_def
  analyze_first_candle_def session_bars_def date_of_def signal_check_def
  ha_block_returns_def normal_block_returns_def price_change_def iloc_def dict_get_def

lemmas calculate_defs =
  calculate_def ha_open_col_def ha_close_col_def ha_row_def bar.extend_def

lemma length_ha_rows_calculate: "length (ha_rows (calculate df)) = length df"
  by (simp add: calculate_def length_ha_open_col length_ha_close_col)

lemma is_bullish_calculate_0:
  "df \<noteq> [] \<Longrightarrow>
   is_bullish (calculate df) 0 =
     Inr (fl_div (fl_add (fl_add (fl_add (bar_open (hd df)) (bar_high (hd df)))
                            (bar_low (hd df))) (bar_close (hd df))) 4
          > bar_open (hd df))"
proof -
  assume ne: "df \<noteq> []"
  have len: "0 < length df" using ne by simp
  have row: "ha_rows (calculate df) ! 0 = ha_row (df ! 0) (ha_open_col df ! 0) (ha_close_col df ! 0)"
    using ne len by (rule calculate_rows)
  have rows_ne: "ha_rows (calculate df) \<noteq> []"
    using ne length_ha_rows_calculate [of df] by auto
  have HA: "calculate df = HA (ha_rows (calculate df))"
    using ne by (simp add: calculate_def)
  have c: "iloc (map ha_close (ha_rows (calculate df))) 0 = Inr (ha_close_col df ! 0)"
    using rows_ne row by (simp add: iloc_def ha_row_sel nth_map)
  have o: "iloc (map ha_open (ha_rows (calculate df))) 0 = Inr (ha_open_col df ! 0)"
    using rows_ne row by (simp add: iloc_def ha_row_sel nth_map)
  have "is_bullish (HA (ha_rows (calculate df))) 0 = Inr (ha_close_col df ! 0 > ha_open_col df ! 0)"
    using rows_ne c o by simp
  then show ?thesis
    using HA ne len by (simp add: ha_open_col_0 ha_close_col_nth hd_conv_nth)
qed

lemma analyze_no_session:
  "session_bars t df = [] \<Longrightarrow> analyze_first_candle st t df = Inr (False, False, 0)"
  by (simp add: analyze_first_candle_def)

lemma analyze_session:
  "session_bars t df = first # rest \<Longrightarrow>
   analyze_first_candle st t df =
     Inr (detect_ha_candle st
            \<and> fl_div (fl_add (fl_add (fl_add (bar_open first) (bar_high first))
                                 (bar_low first)) (bar_close first)) 4
                > bar_open first,
          bar_close first > bar_open first,
          bar_volume first)"
proof -
  assume s: "session_bars t df = first # rest"
  then have ne: "df \<noteq> []" by (auto simp: session_bars_def)
  show ?thesis
    using ne is_bullish_calculate_0 [of "first # rest"]
    by (simp add: analyze_first_candle_def s Let_def)
qed

lemma price_change_nonempty:
  "df \<noteq> [] \<Longrightarrow>
   price_change df mkt =
     (let prev_close = (if 2 \<le> length df then bar_close (df ! (length df - 2))
                        else bar_close (last df));
          live_last = dict_get mkt ''last_price'' (Fin (bar_close (last df)))
      in Inr (if prev_close > 0
              then pf_mul (pf_div (pf_sub live_last (Fin prev_close)) (Fin prev_close)) (Fin 100)
              else Fin 0,
              live_last))"
proof -
  assume ne: "df \<noteq> []"
  have l1: "iloc (map bar_close df) (- 1) = Inr (bar_close (last df))"
    using ne by (cases df rule: rev_cases) (auto simp: iloc_def Let_def nth_append)
  have l2: "iloc (map bar_close df) (- 2) = Inr (bar_close (df ! (length df - 2)))"
    if "2 \<le> length df"
  proof -
    have "nat (int (length df) + - 2) = length df - 2" using that by simp
    moreover have "length df - 2 < length df" using that by simp
    ultimately show ?thesis using that by (simp add: iloc_def Let_def)
  qed
  show ?thesis
  proof (cases "2 \<le> length df")
    case True
    then have "length df > 1" by simp
    then show ?thesis using ne True l1 l2 [OF True] by (simp add: price_change_def Let_def)
  next
    case False
    then have "\<not> length df > 1" by simp
    then show ?thesis using ne False l1 by (simp add: price_change_def Let_def)
  qed
qed

lemma scan_stock_unfold:
  assumes "get_historical_bars conn up c = (df, l1)" and "df \<noteq> []"
      and "analyze_first_candle st (now up) df = Inr (hb, nb, v)"
  shows "scan_stock conn st up c =
     (if v < min_volume st \<or> \<not> signal_check st hb nb then (None, l1)
      else (Some \<lparr>symbol = c,
                  last_price = dict_get (fst (get_market_data conn up c)) ''last_price''
                                 (snd (projr (price_change df (fst (get_market_data conn up c))))),
                  change_percent =
                    fst (projr (price_change df (fst (get_market_data conn up c)))),
                  bid = dict_get (fst (get_market_data conn up c)) ''bid'' (Fin 0),
                  ask = dict_get (fst (get_market_data conn up c)) ''ask'' (Fin 0),
                  market_cap =
                    dict_get (fst (get_fundamental_data conn up c)) ''market_cap'' (Fin 0),
                  volume = dict_get (fst (get_market_data conn up c)) ''volume'' (Fin 0),
                  ha_bullish = hb, normal_bullish = nb, first_candle_volume = v,
                  scan_time = now up,
                  parameters_used =
                    (timeframe_minutes st, min_volume st, min_price st, max_price st)\<rparr>,
            l1 @ snd (get_market_data conn up c) @ snd (get_fundamental_data conn up c)))"
proof -
  obtain ch lp where pc: "price_change df (fst (get_market_data conn up c)) = Inr (ch, lp)"
    using price_change_nonempty [OF assms(2), of "fst (get_market_data conn up c)"]
    by (auto simp: Let_def)
  show ?thesis
    using assms pc by (simp add: scan_stock_def split_beta Let_def)
qed

lemma scan_stock_no_bars:
  "fst (get_historical_bars conn up c) = [] \<Longrightarrow>
   scan_stock conn st up c = (None, snd (get_historical_bars conn up c))"
  by (simp add: scan_stock_def split_beta)

lemma signal_check_both_bearish:
  "detect_ha_candle st \<or> detect_normal_candle st \<Longrightarrow> \<not> signal_check st False False"
  by (auto simp: signal_check_def ha_block_returns_def normal_block_returns_def)

text \<open>
  Claim C1, as amended. When at least one of the two toggles is enabled, the nested
  conditional lets an instrument through exactly when some enabled signal is bullish:
  with one toggle enabled that signal has to be bullish, with both enabled one bullish
  signal is enough. The conditional is not the specification's conjunction.
\<close>

theorem signal_check_any_enabled:
  "detect_ha_candle st \<or> detect_normal_candle st \<Longrightarrow>
   signal_check st hb nb =
     ((detect_ha_candle st \<and> hb) \<or> (detect_normal_candle st \<and> nb))"
  by (auto simp: signal_check_def ha_block_returns_def normal_block_returns_def)

theorem signal_check_any_enabled_witness:
  "(detect_ha_candle default_settings \<or> detect_normal_candle default_settings)
   \<and> signal_check default_settings False True"
  using signal_check_any_enabled [of default_settings False True]
  by (simp add: default_settings_def)

theorem signal_check_counterexample:
  "signal_check default_settings False True \<and> \<not> spec_qualifies default_settings False True"
  by (simp add: signal_check_def ha_block_returns_def normal_block_returns_def
      spec_qualifies_def default_settings_def)

text \<open>
  Claim C3, as amended. When the fetched bars hold no bar dated on the current day, the
  evaluator returns no result and raises nothing: it returns \<open>None\<close> and logs no scanning
  error, only what fetching the bars has logged. This holds provided the minimum volume is
  positive or at least one of the two toggles is enabled.
\<close>

theorem no_session_bars_no_result:
  assumes "session_bars (now up) (fst (get_historical_bars conn up c)) = []"
      and "0 < min_volume st \<or> detect_ha_candle st \<or> detect_normal_candle st"
  shows "scan_stock conn st up c = (None, snd (get_historical_bars conn up c))"
proof (cases "fst (get_historical_bars conn up c) = []")
  case True
  then show ?thesis by (rule scan_stock_no_bars)
next
  case False
  obtain df l1 where g: "get_historical_bars conn up c = (df, l1)"
    by (cases "get_historical_bars conn up c")
  with False have ne: "df \<noteq> []" by simp
  from assms(1) g have "analyze_first_candle st (now up) df = Inr (False, False, 0)"
    by (simp add: analyze_no_session)
  from scan_stock_unfold [OF g ne this] assms(2) signal_check_both_bearish [of st] g
  show ?thesis by auto
qed

theorem no_session_bars_no_result_witness:
  "session_bars (now next_day_upstream)
     (fst (get_historical_bars True next_day_upstream ''AAA'')) = []
   \<and> (0 < min_volume default_settings \<or> detect_ha_candle default_settings
        \<or> detect_normal_candle default_settings)
   \<and> scan_stock True default_settings next_day_upstream ''AAA'' = (None, [])"
  using no_session_bars_no_result [of next_day_upstream True "''AAA''" default_settings]
  by (simp add: example_upstream_def next_day_upstream_def scenario_bars_def
      default_settings_def get_historical_bars_def session_bars_def date_of_def)

theorem no_session_bars_counterexample:
  "session_bars (now next_day_upstream)
     (fst (get_historical_bars True next_day_upstream ''AAA'')) = []
   \<and> fst (scan_stock True permissive_settings next_day_upstream ''AAA'') \<noteq> None"
  by (simp add: example_upstream_def next_day_upstream_def scenario_bars_def example_ticker_def
      default_settings_def permissive_settings_def scan_defs)

text \<open>
  Claim C5. When the first candle of the current session has a volume below
  \<^verbatim>\<open>min_volume\<close>, the evaluator returns no result (and logs no scanning error), whatever
  the candle's direction and the toggles. A volume equal to \<^verbatim>\<open>min_volume\<close> (or above it)
  passes the gate: a result is then returned exactly when the signal check lets the
  candle through, on the raw flag close > open and on the smoothed flag, which is computed
  only when its toggle is on and compares the rounded mean of the first candle with its
  open.
\<close>

theorem volume_gate:
  assumes "session_bars (now up) (fst (get_historical_bars conn up c)) = first # rest"
  shows "(bar_volume first < min_volume st \<longrightarrow>
            scan_stock conn st up c = (None, snd (get_historical_bars conn up c)))
       \<and> (min_volume st \<le> bar_volume first \<longrightarrow>
            (fst (scan_stock conn st up c) \<noteq> None) =
            signal_check st
              (detect_ha_candle st
                 \<and> fl_div (fl_add (fl_add (fl_add (bar_open first) (bar_high first))
                                      (bar_low first)) (bar_close first)) 4
                     > bar_open first)
              (bar_close first > bar_open first))"
proof -
  obtain df l1 where g: "get_historical_bars conn up c = (df, l1)"
    by (cases "get_historical_bars conn up c")
  with assms have s: "session_bars (now up) df = first # rest" by simp
  then have ne: "df \<noteq> []" by (auto simp: session_bars_def)
  from scan_stock_unfold [OF g ne analyze_session [OF s]] g
  show ?thesis by auto
qed

theorem volume_gate_witness:
  "session_bars (now example_upstream) (fst (get_historical_bars True example_upstream ''AAA''))
     = hd scenario_bars # tl scenario_bars
   \<and> bar_volume (hd scenario_bars) < min_volume strict_settings
   \<and> scan_stock True strict_settings example_upstream ''AAA'' = (None, [])
   \<and> bar_volume (hd scenario_bars) = min_volume default_settings
   \<and> fst (scan_stock True default_settings example_upstream ''AAA'') \<noteq> None
   \<and> session_bars (now rounding_upstream) (fst (get_historical_bars True rounding_upstream ''AAA''))
     = hd rounding_bars # tl rounding_bars
   \<and> min_volume default_settings \<le> bar_volume (hd rounding_bars)
   \<and> fst (scan_stock True default_settings rounding_upstream ''AAA'') \<noteq> None"
proof -
  have h: "get_historical_bars True example_upstream ''AAA'' = (scenario_bars, [])"
    by (simp add: get_historical_bars_def example_upstream_def scenario_bars_def)
  have s: "session_bars (now example_upstream) (fst (get_historical_bars True example_upstream ''AAA''))
     = hd scenario_bars # tl scenario_bars"
    by (simp add: h) (simp add: session_bars_def date_of_def example_upstream_def scenario_bars_def)
  have h': "get_historical_bars True rounding_upstream ''AAA'' = (rounding_bars, [])"
    by (simp add: get_historical_bars_def rounding_upstream_def rounding_bars_def)
  have s': "session_bars (now rounding_upstream)
      (fst (get_historical_bars True rounding_upstream ''AAA'')) = hd rounding_bars # tl rounding_bars"
    by (simp add: h')
      (simp add: session_bars_def date_of_def rounding_upstream_def example_upstream_def
        rounding_bars_def)
  have a: "scan_stock True strict_settings example_upstream ''AAA'' = (None, [])"
    using volume_gate [OF s, of strict_settings]
    by (simp add: h) (simp add: scenario_bars_def strict_settings_def default_settings_def)
  have b: "fst (scan_stock True default_settings example_upstream ''AAA'') \<noteq> None"
    using volume_gate [OF s, of default_settings]
    by (simp add: scenario_bars_def default_settings_def signal_check_def ha_block_returns_def
        normal_block_returns_def)
  have c: "fst (scan_stock True default_settings rounding_upstream ''AAA'') \<noteq> None"
    using volume_gate [OF s', of default_settings]
    by (simp add: rounding_bars_def default_settings_def signal_check_def ha_block_returns_def
        normal_block_returns_def fl_eval)
  from s s' a b c show ?thesis
    by (simp add: scenario_bars_def rounding_bars_def strict_settings_def default_settings_def)
qed

text \<open>
  Claim C6, as amended. For every result the evaluator returns, the percent change is
  (live last - previous close) / previous close * 100 as binary64 arithmetic computes it,
  each of the three operations rounded to nearest. The previous close is the close of the
  second-to-last bar when there are at least two bars and the close of the only bar
  otherwise; the live last is the \<^verbatim>\<open>last_price\<close> entry of the fetched market data, and the
  last bar's close when that entry is missing. The percent change is 0 when the previous
  close is zero (the code's guard is previous close > 0) and when there is no bar to take
  it from. For closes 10 then 8 and the live last 7.6 the result is the float next below
  -24, printed -24.000000000000004.
\<close>

theorem change_percent_rule:
  assumes "fst (scan_stock conn st up c) = Some r"
  shows "(let df = fst (get_historical_bars conn up c);
              prev_close = (if 2 \<le> length df then bar_close (df ! (length df - 2))
                            else bar_close (last df));
              live_last = dict_get (fst (get_market_data conn up c)) ''last_price''
                            (Fin (bar_close (last df)));
              computed = pf_mul (pf_div (pf_sub live_last (Fin prev_close)) (Fin prev_close))
                           (Fin 100)
          in change_percent r = (if prev_close > 0 then computed else Fin 0)
           \<and> (0 \<le> prev_close \<longrightarrow>
                change_percent r = (if prev_close = 0 then Fin 0 else computed)))
       \<and> price_change [] mkt = Inr (Fin 0, Fin 0)"
proof -
  have no_bars: "price_change [] mkt = Inr (Fin 0, Fin 0)"
    by (simp add: price_change_def)
  obtain df l1 where g: "get_historical_bars conn up c = (df, l1)"
    by (cases "get_historical_bars conn up c")
  have ne: "df \<noteq> []"
    using assms g scan_stock_no_bars [of conn up c st] by auto
  obtain hb nb v where a: "analyze_first_candle st (now up) df = Inr (hb, nb, v)"
  proof (cases "session_bars (now up) df")
    case Nil
    then show ?thesis using that analyze_no_session by blast
  next
    case (Cons first rest)
    then show ?thesis using that analyze_session by blast
  qed
  from scan_stock_unfold [OF g ne a] assms
  have "change_percent r = fst (projr (price_change df (fst (get_market_data conn up c))))"
    by (auto split: if_splits)
  then have "(let df = fst (get_historical_bars conn up c);
              prev_close = (if 2 \<le> length df then bar_close (df ! (length df - 2))
                            else bar_close (last df));
              live_last = dict_get (fst (get_market_data conn up c)) ''last_price''
                            (Fin (bar_close (last df)));
              computed = pf_mul (pf_div (pf_sub live_last (Fin prev_close)) (Fin prev_close))
                           (Fin 100)
          in change_percent r = (if prev_close > 0 then computed else Fin 0)
           \<and> (0 \<le> prev_close \<longrightarrow>
                change_percent r = (if prev_close = 0 then Fin 0 else computed)))"
    using g by (auto simp add: price_change_nonempty [OF ne] Let_def)
  with no_bars show ?thesis by blast
qed

lemma scenario_change:
  "fl_mul (fl_div (fl_sub (round64 (38 / 5)) 10) 10) 100 = - 24 - 1 / 2 ^ 48"
proof -
  have 1: "round64 (38 / 5) = 4278419646001971 / 562949953421312"
    by (simp add: fl_eval)
  have 2: "fl_sub (4278419646001971 / 562949953421312) 10 = - 1351079888211149 / 562949953421312"
    by (simp add: fl_eval)
  have 3: "fl_div (- 1351079888211149 / 562949953421312) 10
             = - 4323455642275677 / 18014398509481984"
    by (simp add: fl_eval)
  have 4: "fl_mul (- 4323455642275677 / 18014398509481984) 100 = - 24 - 1 / 2 ^ 48"
    by (simp add: fl_eval)
  show ?thesis by (simp only: 1 2 3 4)
qed

theorem change_percent_rule_witness:
  "map_option change_percent (fst (scan_stock True default_settings example_upstream ''AAA''))
     = Some (Fin (- 24 - 1 / 2 ^ 48))
   \<and> map (\<lambda>b. bar_close b) (fst (get_historical_bars True example_upstream ''AAA'')) = [10, 8]
   \<and> fst (get_market_data True example_upstream ''AAA'') ''last_price''
       = Some (Fin (round64 (38 / 5)))"
proof -
  have h: "get_historical_bars True example_upstream ''AAA'' = (scenario_bars, [])"
    by (simp add: get_historical_bars_def example_upstream_def scenario_bars_def)
  have nz: "round64 (38 / 5) \<noteq> 0" by (simp add: fl_eval)
  have m: "fst (get_market_data True example_upstream ''AAA'') ''last_price''
             = Some (Fin (round64 (38 / 5)))"
    using nz by (simp add: get_market_data_def example_upstream_def example_ticker_def)
  have s: "session_bars (now example_upstream) scenario_bars = hd scenario_bars # tl scenario_bars"
    by (simp add: session_bars_def date_of_def example_upstream_def scenario_bars_def)
  have ne: "scenario_bars \<noteq> []" by (simp add: scenario_bars_def)
  have "fst (scan_stock True default_settings example_upstream ''AAA'') \<noteq> None"
    unfolding scan_stock_unfold [OF h ne analyze_session [OF s]]
    by (simp add: scenario_bars_def default_settings_def signal_check_def ha_block_returns_def
        normal_block_returns_def)
  then obtain r where r: "fst (scan_stock True default_settings example_upstream ''AAA'') = Some r"
    by auto
  from change_percent_rule [OF r] scenario_change
  have "change_percent r = Fin (- 24 - 1 / 2 ^ 48)"
    by (simp add: h m dict_get_def Let_def scenario_bars_def)
  then have a: "map_option change_percent
      (fst (scan_stock True default_settings example_upstream ''AAA'')) = Some (Fin (- 24 - 1 / 2 ^ 48))"
    by (simp add: r)
  have b: "map (\<lambda>b. bar_close b) (fst (get_historical_bars True example_upstream ''AAA''))
      = [10, 8]"
    by (simp add: h) (simp add: scenario_bars_def)
  from a b m show ?thesis by blast
qed

theorem change_percent_counterexample:
  "map (\<lambda>b. bar_close b) (fst (get_historical_bars True example_upstream ''AAA'')) = [10, 8]
   \<and> fst (get_market_data True example_upstream ''AAA'') ''last_price''
       = Some (Fin (round64 (38 / 5)))
   \<and> map_option change_percent (fst (scan_stock True default_settings example_upstream ''AAA''))
       = Some (Fin (- 24 - 1 / 2 ^ 48))
   \<and> map_option change_percent (fst (scan_stock True default_settings example_upstream ''AAA''))
       \<noteq> Some (Fin (- 24))"
proof -
  have h: "get_historical_bars True example_upstream ''AAA'' = (scenario_bars, [])"
    by (simp add: get_historical_bars_def example_upstream_def scenario_bars_def)
  have nz: "round64 (38 / 5) \<noteq> 0" by (simp add: fl_eval)
  have m: "fst (get_market_data True example_upstream ''AAA'') ''last_price''
             = Some (Fin (round64 (38 / 5)))"
    using nz by (simp add: get_market_data_def example_upstream_def example_ticker_def)
  have s: "session_bars (now example_upstream) scenario_bars = hd scenario_bars # tl scenario_bars"
    by (simp add: session_bars_def date_of_def example_upstream_def scenario_bars_def)
  have ne: "scenario_bars \<noteq> []" by (simp add: scenario_bars_def)
  have p: "price_change scenario_bars (fst (get_market_data True example_upstream ''AAA''))
             = Inr (Fin (- 24 - 1 / 2 ^ 48), Fin (round64 (38 / 5)))"
    unfolding price_change_nonempty [OF ne]
    using scenario_change by (simp add: m dict_get_def Let_def scenario_bars_def)
  have c: "map_option change_percent
      (fst (scan_stock True default_settings example_upstream ''AAA'')) = Some (Fin (- 24 - 1 / 2 ^ 48))"
    unfolding scan_stock_unfold [OF h ne analyze_session [OF s]] p
    by (simp add: scenario_bars_def default_settings_def signal_check_def ha_block_returns_def
        normal_block_returns_def)
  have b: "map (\<lambda>b. bar_close b) (fst (get_historical_bars True example_upstream ''AAA''))
      = [10, 8]"
    by (simp add: h) (simp add: scenario_bars_def)
  have d: "map_option change_percent
      (fst (scan_stock True default_settings example_upstream ''AAA'')) \<noteq> Some (Fin (- 24))"
    unfolding c by simp
  from b m c d show ?thesis by blast
qed

section \<open>Properties of the scan orchestrator\<close>

text \<open>
  Claim C7. When the scanner is not connected, \<^verbatim>\<open>run_scan\<close> returns the empty mapping
  and changes nothing but the log, which receives the "not connected" error: no archival,
  no replacement of the live set, no call of the subscriber.
\<close>

theorem run_scan_not_connected:
  assumes "\<not> is_connected s"
  shows "run_scan up s = ([], s\<lparr>logged := logged s @ [Error_not_connected]\<rparr>)
       \<and> results (snd (run_scan up s)) = results s
       \<and> scan_history (snd (run_scan up s)) = scan_history s
       \<and> notified (snd (run_scan up s)) = notified s"
  using assms by (simp add: run_scan_def)

theorem run_scan_not_connected_witness:
  "\<not> is_connected (example_scanner\<lparr>is_connected := False\<rparr>)
   \<and> fst (run_scan example_upstream (example_scanner\<lparr>is_connected := False\<rparr>)) = []
   \<and> results (snd (run_scan example_upstream (example_scanner\<lparr>is_connected := False\<rparr>)))
       = [(''OLD'', old_result)]
   \<and> scan_history (snd (run_scan example_upstream (example_scanner\<lparr>is_connected := False\<rparr>)))
       = []
   \<and> notified (snd (run_scan example_upstream (example_scanner\<lparr>is_connected := False\<rparr>)))
       = []
   \<and> logged (snd (run_scan example_upstream (example_scanner\<lparr>is_connected := False\<rparr>)))
       = [Error_not_connected]"
  using run_scan_not_connected [of "example_scanner\<lparr>is_connected := False\<rparr>" example_upstream]
  by (simp add: example_scanner_def)

subsection \<open>Two scans in a row\<close>

lemma restamp_restamp: "restamp t (restamp t' d) = restamp t d"
  by (induction d) (auto simp: restamp_def)

lemma modulo_scan_time_restamp: "modulo_scan_time (restamp t d) = modulo_scan_time d"
  by (simp add: modulo_scan_time_def restamp_restamp)

lemma restamp_update:
  "AList.update k (r\<lparr>scan_time := t\<rparr>) (restamp t d) = restamp t (AList.update k r d)"
  by (induction d) (auto simp: restamp_def)

lemma restamp_eq_Nil: "(restamp t d = []) = (d = [])"
  by (simp add: restamp_def)

lemma analyze_date:
  "date_of t = date_of t' \<Longrightarrow> analyze_first_candle st t df = analyze_first_candle st t' df"
  by (simp add: analyze_first_candle_def session_bars_def)

lemma scan_stock_clock:
  assumes "date_of t2 = date_of (now up)"
  shows "scan_stock conn st (up\<lparr>now := t2\<rparr>) c =
           (map_option (\<lambda>r. r\<lparr>scan_time := t2\<rparr>) (fst (scan_stock conn st up c)),
            snd (scan_stock conn st up c))"
proof -
  have h: "get_historical_bars conn (up\<lparr>now := t2\<rparr>) c = get_historical_bars conn up c"
    by (simp add: get_historical_bars_def)
  have m: "get_market_data conn (up\<lparr>now := t2\<rparr>) c = get_market_data conn up c"
    by (simp add: get_market_data_def)
  have f: "get_fundamental_data conn (up\<lparr>now := t2\<rparr>) c = get_fundamental_data conn up c"
    by (simp add: get_fundamental_data_def)
  have a: "analyze_first_candle st (now (up\<lparr>now := t2\<rparr>)) df = analyze_first_candle st (now up) df"
    for df using assms analyze_date [of t2 "now up" st df] by simp
  show ?thesis
    unfolding scan_stock_def h m f a
    by (auto simp: split_beta Let_def split: sum.splits)
qed

lemma scan_loop_clock:
  assumes "date_of t2 = date_of (now up)"
  shows "scan_loop conn st (up\<lparr>now := t2\<rparr>) cs (restamp t2 acc, lg) =
           (restamp t2 (fst (scan_loop conn st up cs (acc, lg))),
            snd (scan_loop conn st up cs (acc, lg)))"
proof (induction cs arbitrary: acc lg)
  case Nil
  show ?case by simp
next
  case (Cons c cs)
  show ?case
  proof (cases "fst (scan_stock conn st up c)")
    case None
    then obtain l where 1: "scan_stock conn st up c = (None, l)"
      by (cases "scan_stock conn st up c") auto
    then have 2: "scan_stock conn st (up\<lparr>now := t2\<rparr>) c = (None, l)"
      using scan_stock_clock [OF assms, of conn st c] by simp
    show ?thesis using Cons.IH by (simp add: 1 2)
  next
    case (Some r)
    then obtain l where 1: "scan_stock conn st up c = (Some r, l)"
      by (cases "scan_stock conn st up c") auto
    then have 2: "scan_stock conn st (up\<lparr>now := t2\<rparr>) c = (Some (r\<lparr>scan_time := t2\<rparr>), l)"
      using scan_stock_clock [OF assms, of conn st c] by simp
    show ?thesis
      using Cons.IH [of "AList.update (symbol r) r acc"]
      by (simp add: 1 2 restamp_update)
  qed
qed

lemma fetch_stock_universe_clock:
  "fetch_stock_universe conn (up\<lparr>now := t\<rparr>) = fetch_stock_universe conn up"
  by (simp add: fetch_stock_universe_def)

lemma run_scan_connected:
  assumes "is_connected s"
  shows "fst (run_scan up s) = scan_all (settings s) up"
    and "results (snd (run_scan up s)) = scan_all (settings s) up"
    and "scan_history (snd (run_scan up s)) = scan_history s @ archive up s"
    and "settings (snd (run_scan up s)) = settings s"
    and "is_connected (snd (run_scan up s))"
  using assms by (simp_all add: run_scan_def scan_all_def Let_def split_beta archive_def)

lemma scan_all_clock:
  "date_of t2 = date_of (now up) \<Longrightarrow> scan_all st (up\<lparr>now := t2\<rparr>) = restamp t2 (scan_all st up)"
  using scan_loop_clock [of t2 up True st "fst (fetch_stock_universe True up)" "[]" "[]"]
  by (simp add: scan_all_def fetch_stock_universe_clock restamp_def)

lemma length_archive: "length (archive up s) = (if results s = [] then 0 else 1)"
  by (simp add: archive_def)

lemma scenario_qualifies:
  "fst (scan_stock True default_settings example_upstream ''AAA'') \<noteq> None"
proof -
  have h: "get_historical_bars True example_upstream ''AAA'' = (scenario_bars, [])"
    by (simp add: get_historical_bars_def example_upstream_def scenario_bars_def)
  have s: "session_bars (now example_upstream) scenario_bars = hd scenario_bars # tl scenario_bars"
    by (simp add: session_bars_def date_of_def example_upstream_def scenario_bars_def)
  have ne: "scenario_bars \<noteq> []" by (simp add: scenario_bars_def)
  show ?thesis
    unfolding scan_stock_unfold [OF h ne analyze_session [OF s]]
    by (simp add: scenario_bars_def default_settings_def signal_check_def ha_block_returns_def
        normal_block_returns_def)
qed

text \<open>
  Claim C4, as amended. Two calls of \<^verbatim>\<open>run_scan\<close> in a row on a connected scanner, with
  the same upstream answers and clock readings of the same day, produce the same returned
  and live mapping up to \<^verbatim>\<open>scan_time\<close>. Each call appends one history entry when the live
  set it starts from is not empty: the first call archives the previous live set, the
  second call archives the first call's results. So the two calls append exactly one entry
  only when exactly one of these two sets is empty.
\<close>

theorem run_scan_twice:
  assumes "is_connected s" and "date_of t2 = date_of (now up)"
  shows "(let (r1, s1) = run_scan up s; (r2, s2) = run_scan (up\<lparr>now := t2\<rparr>) s1 in
            modulo_scan_time r2 = modulo_scan_time r1
          \<and> modulo_scan_time (results s2) = modulo_scan_time (results s1)
          \<and> scan_history s2 = scan_history s @ archive up s @ archive (up\<lparr>now := t2\<rparr>) s1
          \<and> length (scan_history s2) =
              length (scan_history s) + (if results s = [] then 0 else 1)
                + (if results s1 = [] then 0 else 1)
          \<and> (length (scan_history s2) = length (scan_history s) + 1) =
              ((results s = []) \<noteq> (results s1 = [])))"
proof -
  let ?s1 = "snd (run_scan up s)"
  let ?up2 = "up\<lparr>now := t2\<rparr>"
  note first = run_scan_connected [OF assms(1), of up]
  note second = run_scan_connected [OF first(5), of ?up2]
  have r: "fst (run_scan ?up2 ?s1) = restamp t2 (fst (run_scan up s))"
    by (simp add: first second scan_all_clock [OF assms(2)])
  have l: "results (snd (run_scan ?up2 ?s1)) = restamp t2 (results ?s1)"
    by (simp add: first second scan_all_clock [OF assms(2)])
  have h: "scan_history (snd (run_scan ?up2 ?s1)) =
             scan_history s @ archive up s @ archive ?up2 ?s1"
    by (simp add: first second)
  show ?thesis
    unfolding split_beta Let_def r l h
    by (simp add: modulo_scan_time_restamp length_archive)
qed

theorem run_scan_twice_witness:
  "is_connected example_scanner \<and> date_of (1, 36030) = date_of (now example_upstream)
   \<and> modulo_scan_time
        (fst (run_scan (example_upstream\<lparr>now := (1, 36030)\<rparr>)
               (snd (run_scan example_upstream example_scanner))))
     = modulo_scan_time (fst (run_scan example_upstream example_scanner))"
  using run_scan_twice [of example_scanner "(1, 36030)" example_upstream]
  by (simp add: split_beta example_scanner_def example_upstream_def date_of_def)

theorem run_scan_twice_counterexample:
  "results example_scanner \<noteq> []
   \<and> length (scan_history
        (snd (run_scan example_upstream (snd (run_scan example_upstream example_scanner)))))
     = length (scan_history example_scanner) + 2"
proof -
  have c: "is_connected example_scanner" by (simp add: example_scanner_def)
  obtain r l where "scan_stock True default_settings example_upstream ''AAA'' = (Some r, l)"
    using scenario_qualifies
    by (cases "scan_stock True default_settings example_upstream ''AAA''") auto
  then have "scan_all default_settings example_upstream \<noteq> []"
    by (simp add: scan_all_def fetch_stock_universe_def example_upstream_def)
  then have "results (snd (run_scan example_upstream example_scanner)) \<noteq> []"
    using run_scan_connected(2) [OF c, of example_upstream] by (simp add: example_scanner_def)
  then show ?thesis
    by (simp add: run_scan_connected [OF c] run_scan_connected [OF run_scan_connected(5) [OF c]]
        length_archive) (simp add: example_scanner_def)
qed

end
